theory Spec2Isabelle
  imports Complex_Main
begin

section \<open>Conventions\<close>

text \<open>
  The monitor scripts compute with Python floats. Scores, intensities and clock readings
  are modelled as \<^typ>\<open>real\<close>: the properties below are about which branch is taken and
  which variable is read, not about rounding. The one place where a float operation leaves
  the reals (a division by zero inside numpy, which yields \<open>inf\<close> or \<open>nan\<close> instead of
  raising) is written out with \<^typ>\<open>real option\<close>.
  Python dictionaries keep insertion order, and the code depends on it, so they are
  association lists. Exceptions are values of \<open>py_error\<close>.
\<close>

datatype py_error = IndexError | ValueError

definition py_index :: "'a list \<Rightarrow> nat \<Rightarrow> py_error + 'a" where
  \<comment> \<open>\<open>xs[i]\<close> for a literal index \<open>i \<ge> 0\<close>\<close>
  "py_index xs i = (if i < length xs then Inr (xs ! i) else Inl IndexError)"

fun split_str :: "char \<Rightarrow> string \<Rightarrow> string list" where
  \<comment> \<open>\<open>s.split(c)\<close> for a one-character separator\<close>
  "split_str c [] = [[]]"
| "split_str c (x # xs) =
     (if x = c then [] # split_str c xs
      else (case split_str c xs of
              [] \<Rightarrow> [[x]]
            | w # ws \<Rightarrow> (x # w) # ws))"

section \<open>Sadness level tables and lookup\<close>

type_synonym band_table = "(string \<times> real \<times> real) list"

definition SADNESS_LEVELS :: band_table where
  \<comment> \<open>face.py\<close>
  "SADNESS_LEVELS =
     [(''upset'', 0, 40), (''melancholic'', 40, 70), (''depressed'', 70, 100)]"

definition SADNESS_LEVELS_ADV :: band_table where
  \<comment> \<open>face\_advanced.py\<close>
  "SADNESS_LEVELS_ADV =
     [(''mild_upset'', 0, 35), (''moderate_melancholic'', 35, 65),
      (''severe_depressed'', 65, 100)]"

fun find_band :: "band_table \<Rightarrow> real \<Rightarrow> string option" where
  \<comment> \<open>the \<open>for level, (min_val, max_val) in ....items()\<close> loop; \<open>None\<close> when it falls through\<close>
  "find_band [] v = None"
| "find_band ((level, min_val, max_val) # rest) v =
     (if min_val \<le> v \<and> v < max_val then Some level else find_band rest v)"

definition adjusted_score :: "real \<Rightarrow> real \<Rightarrow> real \<Rightarrow> real" where
  \<comment> \<open>the value of \<open>adjusted_score\<close> in face.py when the classification loop starts\<close>
  "adjusted_score sad_score fear_score neutral_score =
     (let a0 = sad_score;
          a1 = (if fear_score > 20 then min 100 (sad_score + fear_score * 0.3) else a0);
          a2 = (if neutral_score > 40 \<and> sad_score > 20
                then min 100 (sad_score + neutral_score * 0.2) else a1)
      in a2)"

definition classify_sadness_level :: "real \<Rightarrow> real \<Rightarrow> real \<Rightarrow> string \<times> real" where
  \<comment> \<open>face.py; returns (level, confidence)\<close>
  "classify_sadness_level sad_score fear_score neutral_score =
     (let adj = adjusted_score sad_score fear_score neutral_score
      in case find_band SADNESS_LEVELS adj of
           Some level \<Rightarrow> (level, adj)
         | None \<Rightarrow> (''upset'', sad_score))"

definition classify_sadness_level_adv :: "real \<Rightarrow> py_error + string" where
  \<comment> \<open>face\_advanced.py; a matching band returns \<open>level.split('_')[1]\<close>\<close>
  "classify_sadness_level_adv intensity =
     (case find_band SADNESS_LEVELS_ADV intensity of
        Some level \<Rightarrow> py_index (split_str CHR ''_'' level) 1
      | None \<Rightarrow> Inr ''upset'')"

definition band_contains :: "band_table \<Rightarrow> string \<Rightarrow> real \<Rightarrow> bool" where
  \<comment> \<open>the half-open range of band \<open>level\<close> in \<open>table\<close> contains \<open>v\<close>\<close>
  "band_contains table level v =
     list_ex (\<lambda>(l, lo, hi). l = level \<and> lo \<le> v \<and> v < hi) table"

section \<open>Emotion scorer of the 7-class pipeline (face.py)\<close>

type_synonym scores = "(string \<times> real) list"

definition EMOTIONS :: "string list" where
  "EMOTIONS = [''angry'', ''disgust'', ''fear'', ''happy'', ''sad'', ''surprise'', ''neutral'']"

definition predict_emotion_custom :: "real list option \<Rightarrow> scores option" where
  \<comment> \<open>The argument is what \<open>model.predict(...)[0]\<close> gives, \<open>None\<close> when preprocessing or
      the backend raised. Any exception, also an index past the prediction vector, is caught
      and the function returns \<open>None\<close>.\<close>
  "predict_emotion_custom backend =
     (case backend of
        None \<Rightarrow> None
      | Some predictions \<Rightarrow>
          if length predictions < length EMOTIONS then None
          else Some (map (\<lambda>i. (EMOTIONS ! i, predictions ! i * 100)) [0..<length EMOTIONS]))"

fun max_item_from :: "'k \<times> 'v::linorder \<Rightarrow> ('k \<times> 'v) list \<Rightarrow> 'k \<times> 'v" where
  \<comment> \<open>the scan of Python's \<open>max\<close>: the held item is replaced only by a strictly larger key\<close>
  "max_item_from best [] = best"
| "max_item_from best (x # xs) = max_item_from (if snd best < snd x then x else best) xs"

definition py_max_by_value :: "('k \<times> 'v::linorder) list \<Rightarrow> py_error + 'k \<times> 'v" where
  \<comment> \<open>\<open>max(d.items(), key=lambda x: x[1])\<close>\<close>
  "py_max_by_value items =
     (case items of [] \<Rightarrow> Inl ValueError | x # xs \<Rightarrow> Inr (max_item_from x xs))"

definition emotion_map :: "(string \<times> string) list" where
  "emotion_map =
     [(''happy'', ''happy''), (''sad'', ''sad''), (''angry'', ''angry''), (''fear'', ''fearful''),
      (''surprise'', ''surprised''), (''neutral'', ''neutral''), (''disgust'', ''angry'')]"

definition dict_get :: "('k \<times> 'v) list \<Rightarrow> 'k \<Rightarrow> 'v \<Rightarrow> 'v" where
  \<comment> \<open>\<open>d.get(k, default)\<close>\<close>
  "dict_get d k dflt = (case map_of d k of Some v \<Rightarrow> v | None \<Rightarrow> dflt)"

definition get_dominant_emotion :: "scores option \<Rightarrow> (string \<times> scores) option" where
  \<comment> \<open>the result \<open>(None, None)\<close> of a missing or empty mapping is \<open>None\<close>\<close>
  "get_dominant_emotion emotion_scores =
     (case emotion_scores of
        None \<Rightarrow> None
      | Some [] \<Rightarrow> None
      | Some (x # xs) \<Rightarrow>
          (let max_emotion = max_item_from x xs
           in Some (dict_get emotion_map (fst max_emotion) (fst max_emotion), x # xs)))"

section \<open>Facial features of the landmark pipeline (face\_advanced.py)\<close>

type_synonym point = "int \<times> int"

record landmarks =
  left_eye :: "point list"
  right_eye :: "point list"
  left_eyebrow :: "point list"
  right_eyebrow :: "point list"
  nose :: "point list"
  mouth :: "point list"
  jaw :: "point list"

definition dlib_shaped :: "landmarks \<Rightarrow> bool" where
  \<comment> \<open>the group sizes that the slices of \<open>get_facial_landmarks\<close> produce from 68 points\<close>
  "dlib_shaped l \<longleftrightarrow>
     length (left_eye l) = 6 \<and> length (right_eye l) = 6
     \<and> length (left_eyebrow l) = 5 \<and> length (right_eyebrow l) = 5
     \<and> length (nose l) = 9 \<and> length (mouth l) = 20 \<and> length (jaw l) = 17"

definition pt_dist :: "real \<times> real \<Rightarrow> real \<times> real \<Rightarrow> real" where
  \<comment> \<open>\<open>np.linalg.norm(p - q)\<close>\<close>
  "pt_dist p q = sqrt ((fst p - fst q)\<^sup>2 + (snd p - snd q)\<^sup>2)"

definition to_real_pt :: "point \<Rightarrow> real \<times> real" where
  "to_real_pt p = (real_of_int (fst p), real_of_int (snd p))"

definition calculate_eye_aspect_ratio :: "point list \<Rightarrow> py_error + real option" where
  \<comment> \<open>Reads indices 0 to 5. The division is numpy's: a zero horizontal distance gives
      \<open>inf\<close> or \<open>nan\<close>, here \<open>None\<close>, and no exception.\<close>
  "calculate_eye_aspect_ratio eye_points =
     (if length eye_points < 6 then Inl IndexError
      else
        (let A = pt_dist (to_real_pt (eye_points ! 1)) (to_real_pt (eye_points ! 5));
             B = pt_dist (to_real_pt (eye_points ! 2)) (to_real_pt (eye_points ! 4));
             C = pt_dist (to_real_pt (eye_points ! 0)) (to_real_pt (eye_points ! 3))
         in Inr (if 2 * C = 0 then None else Some ((A + B) / (2 * C)))))"

definition mean_real :: "real list \<Rightarrow> real option" where
  \<comment> \<open>\<open>np.mean\<close>; of nothing it is \<open>nan\<close>, here \<open>None\<close>\<close>
  "mean_real xs = (if xs = [] then None else Some (sum_list xs / real (length xs)))"

definition mean_point :: "point list \<Rightarrow> (real \<times> real) option" where
  \<comment> \<open>\<open>np.mean(points, axis=0)\<close>\<close>
  "mean_point ps =
     (case (mean_real (map (\<lambda>p. real_of_int (fst p)) ps),
            mean_real (map (\<lambda>p. real_of_int (snd p)) ps)) of
        (Some x, Some y) \<Rightarrow> Some (x, y)
      | _ \<Rightarrow> None)"

definition calculate_eyebrow_distance :: "point list \<Rightarrow> point list \<Rightarrow> real option" where
  "calculate_eyebrow_distance eyebrow_points eye_points =
     (case (mean_point eyebrow_points, mean_point eye_points) of
        (Some eyebrow_center, Some eye_center) \<Rightarrow> Some (pt_dist eyebrow_center eye_center)
      | _ \<Rightarrow> None)"

definition calculate_mouth_aspect_ratio :: "point list \<Rightarrow> py_error + real \<times> real" where
  \<comment> \<open>reads indices 0, 6, 3 and 9; returns (mar, downturn)\<close>
  "calculate_mouth_aspect_ratio mouth_points =
     (if length mouth_points < 10 then Inl IndexError
      else
        (let left_corner = to_real_pt (mouth_points ! 0);
             right_corner = to_real_pt (mouth_points ! 6);
             top_center = to_real_pt (mouth_points ! 3);
             bottom_center = to_real_pt (mouth_points ! 9);
             vertical = pt_dist top_center bottom_center;
             horizontal = pt_dist left_corner right_corner;
             center_y = (snd top_center + snd bottom_center) / 2;
             corner_avg_y = (snd left_corner + snd right_corner) / 2;
             downturn = max 0 (corner_avg_y - center_y);
             mar = (if horizontal > 0 then vertical / horizontal else 0)
         in Inr (mar, downturn)))"

definition variance :: "real list \<Rightarrow> real option" where
  \<comment> \<open>\<open>np.var\<close> of one column\<close>
  "variance xs =
     (case mean_real xs of
        None \<Rightarrow> None
      | Some m \<Rightarrow> mean_real (map (\<lambda>x. (x - m)\<^sup>2) xs))"

definition jaw_variance :: "point list \<Rightarrow> real option" where
  \<comment> \<open>\<open>np.var(jaw, axis=0).mean()\<close>\<close>
  "jaw_variance ps =
     (case (variance (map (\<lambda>p. real_of_int (fst p)) ps),
            variance (map (\<lambda>p. real_of_int (snd p)) ps)) of
        (Some vx, Some vy) \<Rightarrow> Some ((vx + vy) / 2)
      | _ \<Rightarrow> None)"

definition avg_opt :: "real option \<Rightarrow> real option \<Rightarrow> real option" where
  \<comment> \<open>\<open>(a + b) / 2\<close>, not finite as soon as one operand is not\<close>
  "avg_opt a b = (case (a, b) of (Some x, Some y) \<Rightarrow> Some ((x + y) / 2) | _ \<Rightarrow> None)"

definition below :: "real option \<Rightarrow> real \<Rightarrow> bool" where
  \<comment> \<open>\<open>x < c\<close>; false for \<open>nan\<close> and for \<open>+inf\<close>\<close>
  "below x c = (case x of Some v \<Rightarrow> v < c | None \<Rightarrow> False)"

record measurements =
  avg_ear :: "real option"
  avg_brow_dist :: "real option"
  mar :: real
  downturn :: real
  jaw_var :: "real option"

definition measure_landmarks :: "landmarks \<Rightarrow> py_error + measurements" where
  \<comment> \<open>The geometric quantities of \<open>analyze_facial_features\<close>. Only the reads of the
      eye and mouth points can raise, and each raises \<open>IndexError\<close>.\<close>
  "measure_landmarks l =
     (case calculate_eye_aspect_ratio (left_eye l) of
        Inl e \<Rightarrow> Inl e
      | Inr left_ear \<Rightarrow>
     (case calculate_eye_aspect_ratio (right_eye l) of
        Inl e \<Rightarrow> Inl e
      | Inr right_ear \<Rightarrow>
     (case calculate_mouth_aspect_ratio (mouth l) of
        Inl e \<Rightarrow> Inl e
      | Inr (m, d) \<Rightarrow>
          Inr \<lparr>avg_ear = avg_opt left_ear right_ear,
               avg_brow_dist =
                 avg_opt (calculate_eyebrow_distance (left_eyebrow l) (left_eye l))
                         (calculate_eyebrow_distance (right_eyebrow l) (right_eye l)),
               mar = m, downturn = d,
               jaw_var = jaw_variance (jaw l)\<rparr>)))"

definition rubric :: "measurements \<Rightarrow> real \<times> real" where
  \<comment> \<open>the running pair (sadness\_score, confidence) after the four analyses\<close>
  "rubric ms =
     (let sc0 = (0, 0);
          sc1 = (if below (avg_ear ms) 0.20 then (fst sc0 + 30, snd sc0 + 30)
                 else if below (avg_ear ms) 0.25 then (fst sc0 + 20, snd sc0 + 20)
                 else sc0);
          sc2 = (if below (avg_brow_dist ms) 15 then (fst sc1 + 25, snd sc1 + 25)
                 else if below (avg_brow_dist ms) 20 then (fst sc1 + 15, snd sc1 + 15)
                 else sc1);
          sc3 = (if downturn ms > 5 then (fst sc2 + 35, snd sc2 + 35)
                 else if downturn ms > 2 then (fst sc2 + 20, snd sc2 + 20)
                 else sc2);
          sc4 = (if mar ms < 0.3 then (fst sc3 + 10, snd sc3 + 10) else sc3);
          sc5 = (if below (jaw_var ms) 50 then (fst sc4 + 10, snd sc4 + 10) else sc4)
      in sc5)"

definition normalize_score :: "real \<times> real \<Rightarrow> real" where
  \<comment> \<open>\<open>if confidence > 0: sadness_score = min(100, (sadness_score / confidence) * 100)\<close>\<close>
  "normalize_score sc =
     (if snd sc > 0 then min 100 ((fst sc / snd sc) * 100) else fst sc)"

definition analyze_facial_features :: "landmarks option \<Rightarrow> py_error + real" where
  "analyze_facial_features lm =
     (case lm of
        None \<Rightarrow> Inr 50
      | Some l \<Rightarrow>
          (case measure_landmarks l of
             Inl e \<Rightarrow> Inl e
           | Inr ms \<Rightarrow> Inr (normalize_score (rubric ms))))"

record backend_output =
  out_sad :: real
  out_happy :: real
  out_intensity :: real

type_synonym prediction = "string \<times> real \<times> real \<times> real"

definition fallback_prediction :: prediction where
  \<comment> \<open>the \<open>except\<close> branch of \<open>predict_emotion\<close>\<close>
  "fallback_prediction = (''neutral'', 0, 50, 50)"

definition predict_emotion :: "backend_output option \<Rightarrow> landmarks option \<Rightarrow> prediction" where
  \<comment> \<open>The first argument is what the model returned (\<open>predictions[0][0][0]\<close>,
      \<open>predictions[0][0][1]\<close>, \<open>predictions[1][0][0]\<close>), \<open>None\<close> when preprocessing, the
      backend or the indexing raised. The whole body is inside \<open>try\<close>, so an exception of
      the feature analysis ends in the fallback too. Returns
      (emotion, intensity, sad\_prob, happy\_prob).\<close>
  "predict_emotion backend lm =
     (case backend of
        None \<Rightarrow> fallback_prediction
      | Some p \<Rightarrow>
          (let sad_prob = out_sad p * 100;
               happy_prob = out_happy p * 100;
               model_intensity = out_intensity p * 100
           in if happy_prob > sad_prob then (''happy'', 0, sad_prob, happy_prob)
              else
                (case lm of
                   Some l \<Rightarrow>
                     (case analyze_facial_features (Some l) of
                        Inl e \<Rightarrow> fallback_prediction
                      | Inr feature_intensity \<Rightarrow>
                          (''sad'', (model_intensity * 0.6) + (feature_intensity * 0.4),
                           sad_prob, happy_prob))
                 | None \<Rightarrow> (''sad'', model_intensity, sad_prob, happy_prob))))"

section \<open>Temporal aggregation (the main loops)\<close>

definition SAMPLE_INTERVAL :: real where
  "SAMPLE_INTERVAL = 0.3"

definition AGGREGATION_WINDOW :: real where
  "AGGREGATION_WINDOW = 30"

fun bump :: "(string \<times> nat) list \<Rightarrow> string \<Rightarrow> (string \<times> nat) list" where
  \<comment> \<open>\<open>counts[k] = counts.get(k, 0) + 1\<close>: a known key keeps its place, a new one goes last\<close>
  "bump [] k = [(k, 1)]"
| "bump ((k', c) # rest) k =
     (if k' = k then (k', c + 1) # rest else (k', c) # bump rest k)"

definition count_labels :: "string list \<Rightarrow> (string \<times> nat) list" where
  \<comment> \<open>the counting loop, from an empty dictionary\<close>
  "count_labels labels = foldl bump [] labels"

datatype csv_number = NA | Fixed2 real
  \<comment> \<open>the text \<open>N/A\<close>, or a float formatted with \<open>:.2f\<close>\<close>

definition level_field :: "string option \<Rightarrow> string" where
  \<comment> \<open>\<open>sadness_level if sadness_level else "N/A"\<close>\<close>
  "level_field sadness_level =
     (case sadness_level of
        None \<Rightarrow> ''N/A''
      | Some s \<Rightarrow> if s \<noteq> [] then s else ''N/A'')"

definition intensity_field :: "real option \<Rightarrow> csv_number" where
  \<comment> \<open>\<open>f"{sadness_intensity:.2f}" if sadness_intensity else "N/A"\<close>: the test is
      Python truthiness, false for \<open>None\<close> and for \<open>0.0\<close>\<close>
  "intensity_field sadness_intensity =
     (case sadness_intensity of
        None \<Rightarrow> NA
      | Some x \<Rightarrow> if x \<noteq> 0 then Fixed2 x else NA)"

definition summarize_sadness ::
  "(string \<times> real) list \<Rightarrow> py_error + string option \<times> real option" where
  \<comment> \<open>the block \<open>if window_sadness_data: ...\<close>; returns (sadness\_level, sadness\_intensity)\<close>
  "summarize_sadness sadness_data =
     (if sadness_data = [] then Inr (None, None)
      else
        (case py_max_by_value (count_labels (map fst sadness_data)) of
           Inl e \<Rightarrow> Inl e
         | Inr best \<Rightarrow>
             Inr (Some (fst best),
                  Some (sum_list (map snd sadness_data) / real (length sadness_data)))))"

record ('e, 'r) monitor =
  window_emotions :: "'e list"
  window_sadness_data :: "(string \<times> real) list"
  window_start :: real
  last_sample_time :: real
  current_emotion :: string
  current_sadness_level :: "string option"
  csv_log :: "'r list"

text \<open>
  The record holds the loop variables that the sampling and the flush read or write, and
  the rows appended to the CSV file so far. The time stamps of a row other than the window
  start come from the system clock at the moment of writing and are left out, as are the
  variables only the drawing code reads.
\<close>

definition initial_monitor :: "real \<Rightarrow> ('e, 'r) monitor" where
  "initial_monitor clock =
     \<lparr>window_emotions = [], window_sadness_data = [], window_start = clock,
      last_sample_time = 0, current_emotion = ''neutral'', current_sadness_level = None,
      csv_log = []\<rparr>"

definition first_seen :: "'a list \<Rightarrow> 'a list" where
  \<comment> \<open>the distinct labels of a list in the order of their first occurrence; used to state
      the tie-break, not by the code\<close>
  "first_seen labels = rev (remdups (rev labels))"

subsection \<open>face.py\<close>

type_synonym entry = "string \<times> scores"

record csv_row =
  row_window_start :: real
  row_primary_emotion :: string
  row_sadness_level :: string
  row_sadness_intensity :: csv_number
  row_emotion_scores :: "(string \<times> nat) list"
  row_samples_collected :: nat

type_synonym face_monitor = "(entry, csv_row) monitor"

definition sample_step :: "real \<Rightarrow> nat \<Rightarrow> real list option \<Rightarrow> face_monitor \<Rightarrow> face_monitor" where
  \<comment> \<open>The sampling block of one loop iteration with the custom model: \<open>now\<close>, the number of
      faces found, and the backend's answer for the first face.\<close>
  "sample_step now faces backend st =
     (if now - last_sample_time st \<ge> SAMPLE_INTERVAL \<and> faces > 0 then
        (let st1 = st\<lparr>last_sample_time := now\<rparr>
         in case get_dominant_emotion (predict_emotion_custom backend) of
              None \<Rightarrow> st1
            | Some (dominant_emotion, emotion_scores) \<Rightarrow>
                (let st2 = st1\<lparr>current_emotion := dominant_emotion,
                               window_emotions :=
                                 window_emotions st1 @ [(dominant_emotion, emotion_scores)]\<rparr>
                 in if dominant_emotion = ''sad'' then
                      (let r = classify_sadness_level
                                 (dict_get emotion_scores ''sad'' 0)
                                 (dict_get emotion_scores ''fear'' 0)
                                 (dict_get emotion_scores ''neutral'' 0)
                       in st2\<lparr>current_sadness_level := Some (fst r),
                              window_sadness_data := window_sadness_data st2 @ [r]\<rparr>)
                    else st2\<lparr>current_sadness_level := None\<rparr>))
      else st)"

definition window_row :: "face_monitor \<Rightarrow> py_error + csv_row" where
  \<comment> \<open>the row built from a window with samples\<close>
  "window_row st =
     (let emotion_counts = count_labels (map fst (window_emotions st))
      in case py_max_by_value emotion_counts of
           Inl e \<Rightarrow> Inl e
         | Inr best \<Rightarrow>
             (case summarize_sadness (window_sadness_data st) of
                Inl e \<Rightarrow> Inl e
              | Inr (lvl, mean_intensity) \<Rightarrow>
                  Inr \<lparr>row_window_start = window_start st,
                       row_primary_emotion = fst best,
                       row_sadness_level = level_field lvl,
                       row_sadness_intensity = intensity_field mean_intensity,
                       row_emotion_scores = emotion_counts,
                       row_samples_collected = length (window_emotions st)\<rparr>))"

definition clear_window :: "real \<Rightarrow> ('e, 'r) monitor \<Rightarrow> ('e, 'r) monitor" where
  \<comment> \<open>both \<open>clear()\<close> calls and \<open>window_start = time.time()\<close>, the clock read again\<close>
  "clear_window clock st =
     st\<lparr>window_emotions := [], window_sadness_data := [], window_start := clock\<rparr>"

definition flush_step :: "real \<Rightarrow> real \<Rightarrow> face_monitor \<Rightarrow> py_error + face_monitor" where
  \<comment> \<open>The aggregation check of one loop iteration: \<open>now\<close> was read at the top of the
      iteration, \<open>clock\<close> is the reading of the second \<open>time.time()\<close>.\<close>
  "flush_step now clock st =
     (if now - window_start st \<ge> AGGREGATION_WINDOW then
        (if window_emotions st \<noteq> [] then
           (case window_row st of
              Inl e \<Rightarrow> Inl e
            | Inr row \<Rightarrow> Inr (clear_window clock (st\<lparr>csv_log := csv_log st @ [row]\<rparr>)))
         else Inr (clear_window clock st))
      else Inr st)"

subsection \<open>face\_advanced.py\<close>

record entry_adv =
  e_emotion :: string
  e_intensity :: real
  e_sad_prob :: real
  e_happy_prob :: real

record csv_row_adv =
  arow_window_start :: real
  arow_primary_emotion :: string
  arow_sadness_level :: string
  arow_sadness_intensity :: csv_number
  arow_happy_confidence :: real
  arow_sad_confidence :: real
  arow_samples_collected :: nat

type_synonym adv_monitor = "(entry_adv, csv_row_adv) monitor"

definition sample_step_adv ::
  "real \<Rightarrow> nat \<Rightarrow> backend_output option \<Rightarrow> landmarks option \<Rightarrow> adv_monitor
     \<Rightarrow> py_error + adv_monitor" where
  \<comment> \<open>The sampling block of one loop iteration: \<open>now\<close>, the number of faces found, the
      backend's answer for the first face and what \<open>get_facial_landmarks\<close> returned.\<close>
  "sample_step_adv now faces backend lm st =
     (if now - last_sample_time st \<ge> SAMPLE_INTERVAL \<and> faces > 0 then
        (case predict_emotion backend lm of
           (emo, inten, sp, hp) \<Rightarrow>
             (let st1 = st\<lparr>last_sample_time := now,
                            current_emotion := emo,
                            window_emotions :=
                              window_emotions st @
                                [\<lparr>e_emotion = emo, e_intensity = inten,
                                  e_sad_prob = sp, e_happy_prob = hp\<rparr>]\<rparr>
              in if emo = ''sad'' then
                   (case classify_sadness_level_adv inten of
                      Inl e \<Rightarrow> Inl e
                    | Inr lvl \<Rightarrow>
                        Inr (st1\<lparr>current_sadness_level := Some lvl,
                                 window_sadness_data :=
                                   window_sadness_data st1 @ [(lvl, inten)]\<rparr>))
                 else Inr (st1\<lparr>current_sadness_level := None\<rparr>)))
      else Inr st)"

definition window_row_adv :: "adv_monitor \<Rightarrow> py_error + csv_row_adv" where
  "window_row_adv st =
     (let emotion_counts = count_labels (map e_emotion (window_emotions st))
      in case py_max_by_value emotion_counts of
           Inl e \<Rightarrow> Inl e
         | Inr best \<Rightarrow>
             (case summarize_sadness (window_sadness_data st) of
                Inl e \<Rightarrow> Inl e
              | Inr (lvl, mean_intensity) \<Rightarrow>
                  Inr \<lparr>arow_window_start = window_start st,
                       arow_primary_emotion = fst best,
                       arow_sadness_level = level_field lvl,
                       arow_sadness_intensity = intensity_field mean_intensity,
                       arow_happy_confidence =
                         sum_list (map e_happy_prob (window_emotions st))
                           / real (length (window_emotions st)),
                       arow_sad_confidence =
                         sum_list (map e_sad_prob (window_emotions st))
                           / real (length (window_emotions st)),
                       arow_samples_collected = length (window_emotions st)\<rparr>))"

definition flush_step_adv :: "real \<Rightarrow> real \<Rightarrow> adv_monitor \<Rightarrow> py_error + adv_monitor" where
  \<comment> \<open>as \<open>flush_step\<close>, but here one condition guards the row and the reset together\<close>
  "flush_step_adv now clock st =
     (if now - window_start st \<ge> AGGREGATION_WINDOW \<and> window_emotions st \<noteq> [] then
        (case window_row_adv st of
           Inl e \<Rightarrow> Inl e
         | Inr row \<Rightarrow> Inr (clear_window clock (st\<lparr>csv_log := csv_log st @ [row]\<rparr>)))
      else Inr st)"

subsection \<open>face\_simple.py\<close>

definition dominant_simple :: "string list \<Rightarrow> py_error + string" where
  \<comment> \<open>the window's dominant label from the labels of its entries, in recording order\<close>
  "dominant_simple labels =
     (case py_max_by_value (count_labels labels) of
        Inl e \<Rightarrow> Inl e
      | Inr best \<Rightarrow> Inr (fst best))"

section \<open>Example inputs\<close>

text \<open>
  Two landmark sets of the shape dlib produces, used to run the feature analysis on
  concrete points: a relaxed face on which no indicator of the rubric fires, and the same
  face with the eyebrows lowered to ten pixels above the eyes.
\<close>

definition example_face :: landmarks where
  "example_face =
     \<lparr>left_eye = [(0, 0), (3, 2), (7, 2), (10, 0), (7, -2), (3, -2)],
      right_eye = [(20, 0), (23, 2), (27, 2), (30, 0), (27, -2), (23, -2)],
      left_eyebrow = [(1, -19), (3, -20), (5, -21), (7, -20), (9, -20)],
      right_eyebrow = [(21, -19), (23, -20), (25, -21), (27, -20), (29, -20)],
      nose = replicate 9 (15, 10),
      mouth = [(5, 30), (6, 30), (7, 30), (15, 26), (8, 30), (9, 30), (25, 30), (10, 30),
               (11, 30), (15, 34)] @ replicate 10 (15, 30),
      jaw = [(-65, 40), (-55, 40), (-45, 40), (-35, 40), (-25, 40), (-15, 40), (-5, 40),
             (5, 40), (15, 40), (25, 40), (35, 40), (45, 40), (55, 40), (65, 40), (75, 40),
             (85, 40), (95, 40)]\<rparr>"

definition example_face_furrowed :: landmarks where
  "example_face_furrowed =
     example_face\<lparr>left_eyebrow := [(1, -9), (3, -10), (5, -11), (7, -10), (9, -10)],
                   right_eyebrow := [(21, -9), (23, -10), (25, -11), (27, -10), (29, -10)]\<rparr>"

section \<open>Auxiliary facts\<close>

lemma upt_7: "[0..<7] = [0, 1, 2, 3, 4, 5, 6]"
  by code_simp

lemma emotions_len: "length EMOTIONS = 7"
  by (simp add: EMOTIONS_def)

section \<open>Properties of the level lookup\<close>

lemma find_band_face:
  "find_band SADNESS_LEVELS v =
     (if 0 \<le> v \<and> v < 40 then Some ''upset''
      else if 40 \<le> v \<and> v < 70 then Some ''melancholic''
      else if 70 \<le> v \<and> v < 100 then Some ''depressed'' else None)"
  by (simp add: SADNESS_LEVELS_def)

lemma find_band_adv:
  "find_band SADNESS_LEVELS_ADV v =
     (if 0 \<le> v \<and> v < 35 then Some ''mild_upset''
      else if 35 \<le> v \<and> v < 65 then Some ''moderate_melancholic''
      else if 65 \<le> v \<and> v < 100 then Some ''severe_depressed'' else None)"
  by (simp add: SADNESS_LEVELS_ADV_def)

lemma split_level_names:
  "py_index (split_str CHR ''_'' ''mild_upset'') 1 = Inr ''upset''"
  "py_index (split_str CHR ''_'' ''moderate_melancholic'') 1 = Inr ''melancholic''"
  "py_index (split_str CHR ''_'' ''severe_depressed'') 1 = Inr ''depressed''"
  by (simp_all add: py_index_def)

lemma classify_sadness_level_adv_cases:
  "classify_sadness_level_adv v =
     (if 0 \<le> v \<and> v < 35 then Inr ''upset''
      else if 35 \<le> v \<and> v < 65 then Inr ''melancholic''
      else if 65 \<le> v \<and> v < 100 then Inr ''depressed'' else Inr ''upset'')"
  by (simp add: classify_sadness_level_adv_def find_band_adv py_index_def)

lemma adjusted_score_both:
  "fear_score > 20 \<Longrightarrow> neutral_score > 40 \<Longrightarrow> sad_score > 20 \<Longrightarrow>
   adjusted_score sad_score fear_score neutral_score =
     min 100 (sad_score + neutral_score * 0.2)"
  by (simp add: adjusted_score_def)

lemma classify_in_band:
  assumes "0 \<le> adjusted_score s f n" and "adjusted_score s f n < 100"
  shows "band_contains SADNESS_LEVELS (fst (classify_sadness_level s f n)) (adjusted_score s f n)
       \<and> snd (classify_sadness_level s f n) = adjusted_score s f n"
  using assms
  by (simp add: classify_sadness_level_def find_band_face band_contains_def
      SADNESS_LEVELS_def Let_def)

text \<open>
  Claim C1. In face.py the fear adjustment is applied first and the neutral adjustment
  second, each added to the running total: when both conditions hold the adjusted score
  is \<open>min(100, min(100, sad + fear * 0.3) + neutral * 0.2)\<close>.

  The code does not do this. Both assignments start again from \<open>sad_score\<close>, so the neutral
  adjustment discards the fear adjustment. At sad 30, fear 25, neutral 45 the code computes
  39 and answers upset; the claimed formula gives 46.5, a melancholic score.
\<close>

theorem classify_sadness_level_neutral_discards_fear:
  "adjusted_score 30 25 45 = 39
   \<and> classify_sadness_level 30 25 45 = (''upset'', 39)
   \<and> min 100 (min 100 (30 + 25 * 0.3) + 45 * 0.2) = (46.5 :: real)
   \<and> find_band SADNESS_LEVELS 46.5 = Some ''melancholic''"
  by (simp add: adjusted_score_def classify_sadness_level_def find_band_face)

text \<open>
  Claim C3. For all scores in [0,100] the level returned by \<open>classify_sadness_level\<close> is
  the band whose half-open range contains the adjusted score, the bands partition
  [0,100], and an adjusted score of exactly 100 belongs to the top band.

  The code clamps the adjusted score to 100 and then tests \<open>adjusted_score < 100\<close> for the
  top band, so a score of exactly 100 matches no band and falls to the default.
  With sad 100 the answer is upset; with sad 90 and fear 40 the clamp gives 100 and the
  answer is upset with confidence 90. The lookup of face\_advanced.py answers upset at 100
  too. Lemma \<open>classify_in_band\<close> is what holds below 100.
\<close>

theorem classify_sadness_level_at_100:
  "adjusted_score 100 0 0 = 100
   \<and> classify_sadness_level 100 0 0 = (''upset'', 100)
   \<and> \<not> band_contains SADNESS_LEVELS ''upset'' 100
   \<and> adjusted_score 90 40 0 = 100
   \<and> classify_sadness_level 90 40 0 = (''upset'', 90)
   \<and> classify_sadness_level_adv 100 = Inr ''upset''
   \<and> \<not> band_contains SADNESS_LEVELS_ADV ''mild_upset'' 100"
  by (simp add: adjusted_score_def classify_sadness_level_def find_band_face
      classify_sadness_level_adv_cases band_contains_def SADNESS_LEVELS_def
      SADNESS_LEVELS_ADV_def)

text \<open>
  Claim C10. The level lookup is total and defaults defensively: an intensity \<open>I\<close> outside
  [0,100] matches no band, and both lookups then return the lowest band. In face.py the
  intensity looked up is the adjusted score; in face\_advanced.py it is the argument. The
  lowest band is named upset in the first table and mild\_upset, returned as upset, in the
  second: it is the band of intensity 0.
\<close>

theorem sadness_lookup_default_lowest_band:
  assumes "I < 0 \<or> 100 < I"
  shows "(adjusted_score s f n = I \<longrightarrow>
            fst (classify_sadness_level s f n) = ''upset''
          \<and> fst (classify_sadness_level s f n) = fst (classify_sadness_level 0 0 0))
       \<and> classify_sadness_level_adv I = Inr ''upset''
       \<and> classify_sadness_level_adv I = classify_sadness_level_adv 0
       \<and> band_contains SADNESS_LEVELS ''upset'' 0
       \<and> band_contains SADNESS_LEVELS_ADV ''mild_upset'' 0"
  using assms
  by (auto simp add: classify_sadness_level_def find_band_face adjusted_score_def
      classify_sadness_level_adv_cases band_contains_def SADNESS_LEVELS_def
      SADNESS_LEVELS_ADV_def Let_def)

theorem sadness_lookup_default_lowest_band_witness:
  "((150::real) < 0 \<or> 100 < (150::real))
   \<and> adjusted_score 150 0 0 = 150
   \<and> fst (classify_sadness_level 150 0 0) = ''upset''
   \<and> classify_sadness_level_adv 150 = Inr ''upset''"
  using sadness_lookup_default_lowest_band [of 150 150 0 0]
  by (simp add: adjusted_score_def)

section \<open>Majority vote of a window\<close>

lemma max_item_from_scan:
  assumes "\<forall>p \<in> set pre. snd p < snd best" and "\<forall>p \<in> set mid. snd p \<le> snd best"
  shows "\<exists>pre' post'. pre @ best # mid @ xs = pre' @ max_item_from best xs # post'
     \<and> (\<forall>p \<in> set pre'. snd p < snd (max_item_from best xs))
     \<and> (\<forall>p \<in> set post'. snd p \<le> snd (max_item_from best xs))"
  using assms
proof (induction xs arbitrary: pre best mid)
  case Nil
  then show ?case by auto
next
  case (Cons y ys)
  show ?case
  proof (cases "snd best < snd y")
    case True
    have a: "\<forall>p \<in> set (pre @ best # mid). snd p < snd y"
      using Cons.prems True by auto
    have b: "\<forall>p \<in> set []. snd p \<le> snd y" by simp
    from Cons.IH [OF a b] True show ?thesis by simp
  next
    case False
    have b: "\<forall>p \<in> set (mid @ [y]). snd p \<le> snd best"
      using Cons.prems False by auto
    from Cons.IH [OF Cons.prems(1) b] False show ?thesis by simp
  qed
qed

lemma max_item_from_first_max:
  "\<exists>pre post. x # xs = pre @ max_item_from x xs # post
     \<and> (\<forall>p \<in> set pre. snd p < snd (max_item_from x xs))
     \<and> (\<forall>p \<in> set post. snd p \<le> snd (max_item_from x xs))"
  using max_item_from_scan [of "[]" x "[]" xs] by simp

lemma first_seen_snoc:
  "first_seen (xs @ [x]) = (if x \<in> set xs then first_seen xs else first_seen xs @ [x])"
  by (simp add: first_seen_def)

lemma set_first_seen: "set (first_seen xs) = set xs"
  by (simp add: first_seen_def)

lemma distinct_first_seen: "distinct (first_seen xs)"
  by (simp add: first_seen_def)

lemma bump_counted:
  assumes "distinct ks"
  shows "bump (map (\<lambda>k. (k, f k)) ks) x =
     (if x \<in> set ks then map (\<lambda>k. (k, if k = x then f k + 1 else f k)) ks
      else map (\<lambda>k. (k, f k)) ks @ [(x, 1)])"
  using assms by (induction ks) auto

lemma count_labels_snoc: "count_labels (xs @ [x]) = bump (count_labels xs) x"
  by (simp add: count_labels_def)

lemma count_list_snoc: "count_list (xs @ [x]) k = count_list xs k + (if x = k then 1 else 0)"
  by (induction xs) auto

lemma count_labels_eq:
  "count_labels labels = map (\<lambda>k. (k, count_list labels k)) (first_seen labels)"
proof (induction labels rule: rev_induct)
  case Nil
  show ?case by (simp add: count_labels_def first_seen_def)
next
  case (snoc x xs)
  show ?case
  proof (cases "x \<in> set xs")
    case True
    then show ?thesis
      by (simp add: count_labels_snoc snoc.IH bump_counted distinct_first_seen
          set_first_seen first_seen_snoc count_list_snoc)
  next
    case False
    then show ?thesis
      by (auto simp add: count_labels_snoc snoc.IH bump_counted distinct_first_seen
          set_first_seen first_seen_snoc count_list_snoc)
  qed
qed

lemma first_seen_split:
  "first_seen labels = pre @ d # post \<Longrightarrow>
   \<exists>p q. labels = p @ d # q \<and> set p \<subseteq> set pre"
proof (induction labels arbitrary: post rule: rev_induct)
  case Nil
  then show ?case by (simp add: first_seen_def)
next
  case (snoc x xs)
  show ?case
  proof (cases "x \<in> set xs")
    case True
    with snoc.prems have "first_seen xs = pre @ d # post" by (simp add: first_seen_snoc)
    from snoc.IH [OF this] obtain p q where "xs = p @ d # q" "set p \<subseteq> set pre" by blast
    then have "xs @ [x] = p @ d # (q @ [x]) \<and> set p \<subseteq> set pre" by simp
    then show ?thesis by blast
  next
    case False
    with snoc.prems have e: "first_seen xs @ [x] = pre @ d # post" by (simp add: first_seen_snoc)
    show ?thesis
    proof (cases post rule: rev_cases)
      case Nil
      with e have "first_seen xs = pre" "x = d" by simp_all
      then have "xs @ [x] = xs @ d # [] \<and> set xs \<subseteq> set pre"
        using set_first_seen [of xs] by simp
      then show ?thesis by blast
    next
      case (snoc post' z)
      with e have "first_seen xs = pre @ d # post'" by simp
      from snoc.IH [OF this] obtain p q where "xs = p @ d # q" "set p \<subseteq> set pre" by blast
      then have "xs @ [x] = p @ d # (q @ [x]) \<and> set p \<subseteq> set pre" by simp
      then show ?thesis by blast
    qed
  qed
qed

lemma count_labels_Nil_iff: "count_labels labels = [] \<longleftrightarrow> labels = []"
  by (simp add: count_labels_eq first_seen_def)

lemma py_max_by_value_Cons:
  "py_max_by_value (x # xs) = Inr (max_item_from x xs)"
  by (simp add: py_max_by_value_def)

lemma py_max_by_value_count_labels:
  assumes "labels \<noteq> []"
  shows "\<exists>best. py_max_by_value (count_labels labels) = Inr best \<and> fst best \<in> set labels"
proof -
  from assms obtain x xs where cl: "count_labels labels = x # xs"
    by (cases "count_labels labels") (simp_all add: count_labels_Nil_iff)
  from max_item_from_first_max [of x xs] have "max_item_from x xs \<in> set (x # xs)"
    by (metis in_set_conv_decomp)
  with cl have "fst (max_item_from x xs) \<in> fst ` set (count_labels labels)" by auto
  then have "fst (max_item_from x xs) \<in> set labels"
    by (auto simp add: count_labels_eq set_first_seen)
  with cl show ?thesis by (simp add: py_max_by_value_Cons)
qed

lemma summarize_sadness_Nil: "summarize_sadness [] = Inr (None, None)"
  by (simp add: summarize_sadness_def)

lemma summarize_sadness_nonempty:
  assumes "d \<noteq> []"
  shows "\<exists>lvl. summarize_sadness d =
            Inr (Some lvl, Some (sum_list (map snd d) / real (length d)))
          \<and> lvl \<in> fst ` set d"
proof -
  from assms have "map fst d \<noteq> []" by simp
  from py_max_by_value_count_labels [OF this] obtain best where
    "py_max_by_value (count_labels (map fst d)) = Inr best" "fst best \<in> set (map fst d)"
    by blast
  with assms show ?thesis by (auto simp add: summarize_sadness_def)
qed

lemma summarize_sadness_total: "\<exists>lvl mi. summarize_sadness d = Inr (lvl, mi)"
  using summarize_sadness_Nil summarize_sadness_nonempty [of d] by (cases "d = []") auto

lemma window_row_total:
  assumes "window_emotions st \<noteq> []"
  shows "\<exists>row best. window_row st = Inr row
     \<and> py_max_by_value (count_labels (map fst (window_emotions st))) = Inr best
     \<and> row_primary_emotion row = fst best"
proof -
  from assms have "map fst (window_emotions st) \<noteq> []" by simp
  from py_max_by_value_count_labels [OF this] obtain best where
    b: "py_max_by_value (count_labels (map fst (window_emotions st))) = Inr best" by blast
  from summarize_sadness_total obtain lvl mi where
    "summarize_sadness (window_sadness_data st) = Inr (lvl, mi)" by blast
  with b show ?thesis by (simp add: window_row_def)
qed

lemma window_row_adv_total:
  assumes "window_emotions st \<noteq> []"
  shows "\<exists>row best. window_row_adv st = Inr row
     \<and> py_max_by_value (count_labels (map e_emotion (window_emotions st))) = Inr best
     \<and> arow_primary_emotion row = fst best"
proof -
  from assms have "map e_emotion (window_emotions st) \<noteq> []" by simp
  from py_max_by_value_count_labels [OF this] obtain best where
    b: "py_max_by_value (count_labels (map e_emotion (window_emotions st))) = Inr best" by blast
  from summarize_sadness_total obtain lvl mi where
    "summarize_sadness (window_sadness_data st) = Inr (lvl, mi)" by blast
  with b show ?thesis by (simp add: window_row_adv_def)
qed

text \<open>
  Claim C5. The majority vote of a window breaks a tie of counts by the order in which
  the labels were first seen, not alphabetically: the samples sad, happy, sad, happy,
  recorded in that order, give the dominant label sad.

  In general, for a window with samples, the label chosen has the largest count, and
  it occurs in the window before the first occurrence of every other label with the same
  count. The expression is the same in the three scripts; the row of face.py carries the
  chosen label as its primary emotion.
\<close>

theorem majority_vote_first_seen:
  assumes "labels \<noteq> []"
  shows "\<exists>d. py_max_by_value (count_labels labels) = Inr (d, count_list labels d)
           \<and> dominant_simple labels = Inr d
           \<and> d \<in> set labels
           \<and> (\<forall>l. count_list labels l \<le> count_list labels d)
           \<and> (\<forall>l. count_list labels l = count_list labels d \<longrightarrow>
                  (\<exists>p q. labels = p @ d # q \<and> l \<notin> set p))
           \<and> (\<forall>st. map fst (window_emotions st) = labels \<longrightarrow>
                  (\<exists>row. window_row st = Inr row \<and> row_primary_emotion row = d))"
proof -
  from assms obtain x xs where cl: "count_labels labels = x # xs"
    by (cases "count_labels labels") (simp_all add: count_labels_Nil_iff)
  define m where "m = max_item_from x xs"
  from max_item_from_first_max [of x xs] obtain pre post where
    sp: "x # xs = pre @ m # post"
    and lt: "\<forall>p \<in> set pre. snd p < snd m"
    and le: "\<forall>p \<in> set post. snd p \<le> snd m"
    unfolding m_def by blast
  have res: "py_max_by_value (count_labels labels) = Inr m"
    by (simp add: py_max_by_value_def cl m_def)
  from cl sp have full: "map (\<lambda>k. (k, count_list labels k)) (first_seen labels) = pre @ m # post"
    by (simp add: count_labels_eq)
  have fs: "first_seen labels = map fst pre @ fst m # map fst post"
  proof -
    have "map fst (map (\<lambda>k. (k, count_list labels k)) (first_seen labels)) = first_seen labels"
      by (simp add: comp_def)
    with full show ?thesis by simp
  qed
  have mem: "\<And>p. p \<in> set (pre @ m # post) \<Longrightarrow> snd p = count_list labels (fst p)"
    using full [symmetric] by auto
  have m_eq: "m = (fst m, count_list labels (fst m))"
    using mem [of m] by (simp add: prod_eq_iff)
  have d_in: "fst m \<in> set labels"
    using fs set_first_seen [of labels] by auto
  have all_le: "count_list labels l \<le> count_list labels (fst m)" for l
  proof (cases "l \<in> set labels")
    case False
    then show ?thesis by (simp add: count_list_0_iff)
  next
    case True
    then have "l \<in> set (first_seen labels)" by (simp add: set_first_seen)
    with fs have "l \<in> fst ` set pre \<or> l = fst m \<or> l \<in> fst ` set post" by auto
    then show ?thesis
    proof (elim disjE)
      assume "l \<in> fst ` set pre"
      then obtain p where "p \<in> set pre" "fst p = l" by auto
      with lt mem [of p] mem [of m] show ?thesis by auto
    next
      assume "l = fst m"
      then show ?thesis by simp
    next
      assume "l \<in> fst ` set post"
      then obtain p where "p \<in> set post" "fst p = l" by auto
      with le mem [of p] mem [of m] show ?thesis by auto
    qed
  qed
  have first: "\<exists>p q. labels = p @ fst m # q \<and> l \<notin> set p"
    if eq: "count_list labels l = count_list labels (fst m)" for l
  proof -
    from first_seen_split [OF fs] obtain p q where
      pq: "labels = p @ fst m # q" "set p \<subseteq> set (map fst pre)" by blast
    have "l \<notin> set (map fst pre)"
    proof
      assume "l \<in> set (map fst pre)"
      then obtain e where "e \<in> set pre" "fst e = l" by auto
      with lt mem [of e] mem [of m] eq show False by auto
    qed
    with pq show ?thesis by blast
  qed
  have rows: "\<exists>row. window_row st = Inr row \<and> row_primary_emotion row = fst m"
    if "map fst (window_emotions st) = labels" for st :: face_monitor
  proof -
    from that assms have "window_emotions st \<noteq> []" by auto
    from window_row_total [OF this] that res show ?thesis by auto
  qed
  from res m_eq d_in all_le first rows show ?thesis
    by (intro exI [of _ "fst m"]) (simp add: dominant_simple_def)
qed

theorem majority_vote_first_seen_witness:
  "[''sad'', ''happy'', ''sad'', ''happy''] \<noteq> []
   \<and> count_labels [''sad'', ''happy'', ''sad'', ''happy''] = [(''sad'', 2), (''happy'', 2)]
   \<and> py_max_by_value (count_labels [''sad'', ''happy'', ''sad'', ''happy'']) = Inr (''sad'', 2)
   \<and> dominant_simple [''sad'', ''happy'', ''sad'', ''happy''] = Inr ''sad''
   \<and> map_sum id
        (\<lambda>s. map (\<lambda>r. (row_primary_emotion r, row_emotion_scores r, row_samples_collected r))
                 (csv_log s))
        (flush_step 30 31
          (sample_step 4 1 (Some [0.05, 0.05, 0.05, 0.7, 0.05, 0.05, 0.05])
          (sample_step 3 1 (Some [0.05, 0.05, 0.05, 0.05, 0.7, 0.05, 0.05])
          (sample_step 2 1 (Some [0.05, 0.05, 0.05, 0.7, 0.05, 0.05, 0.05])
          (sample_step 1 1 (Some [0.05, 0.05, 0.05, 0.05, 0.7, 0.05, 0.05])
            (initial_monitor 0))))))
       = Inr [(''sad'', [(''sad'', 2), (''happy'', 2)], 4)]"
  using majority_vote_first_seen [of "[''sad'', ''happy'', ''sad'', ''happy'']"]
  by (simp add: dominant_simple_def count_labels_def py_max_by_value_def
      sample_step_def predict_emotion_custom_def emotions_len upt_7 get_dominant_emotion_def
      dict_get_def emotion_map_def initial_monitor_def SAMPLE_INTERVAL_def
      classify_sadness_level_def adjusted_score_def find_band_face
      flush_step_def AGGREGATION_WINDOW_def window_row_def summarize_sadness_def
      level_field_def intensity_field_def clear_window_def EMOTIONS_def Let_def)

section \<open>Window flush\<close>

lemma flush_step_elapsed:
  fixes st :: face_monitor
  assumes "now - window_start st \<ge> AGGREGATION_WINDOW"
  shows "\<exists>st'. flush_step now clock st = Inr st'
            \<and> window_emotions st' = [] \<and> window_sadness_data st' = []
            \<and> window_start st' = clock
            \<and> (window_emotions st = [] \<longrightarrow> csv_log st' = csv_log st)
            \<and> (window_emotions st \<noteq> [] \<longrightarrow> (\<exists>row. csv_log st' = csv_log st @ [row]))"
proof (cases "window_emotions st = []")
  case True
  with assms show ?thesis by (simp add: flush_step_def clear_window_def)
next
  case False
  from window_row_total [OF False] obtain row where "window_row st = Inr row" by blast
  with False assms show ?thesis by (simp add: flush_step_def clear_window_def)
qed

text \<open>
  Claim C2. When the window has elapsed, the buffers are cleared and the window start is
  reset unconditionally, also when no sample was recorded since the last flush; an empty
  window emits no row but still resets the window start.

  face.py does this (lemma \<open>flush_step_elapsed\<close>). In face\_advanced.py the test that
  keeps an empty window from writing a row, \<open>... and window_emotions\<close>, also guards the
  clearing and the reset, so an elapsed window without samples keeps its old start. Started
  at 0 and checked at 30 with no sample, the window of face\_advanced.py still starts at 0,
  where that of face.py restarts at the clock reading 31. The next sample, at 100, is then
  flushed alone in the same iteration, in a row whose window started at 0.
\<close>

theorem flush_step_adv_empty_window_not_reset:
  "30 - window_start (initial_monitor 0 :: adv_monitor) \<ge> AGGREGATION_WINDOW
   \<and> window_emotions (initial_monitor 0 :: adv_monitor) = []
   \<and> flush_step_adv 30 31 (initial_monitor 0) = Inr (initial_monitor 0)
   \<and> window_start (initial_monitor 0 :: adv_monitor) \<noteq> 31
   \<and> flush_step 30 31 (initial_monitor 0) = Inr (initial_monitor 31)
   \<and> sample_step_adv 100 1 (Some \<lparr>out_sad = 0.1, out_happy = 0.9, out_intensity = 0\<rparr>) None
        (initial_monitor 0) =
      Inr \<lparr>window_emotions =
             [\<lparr>e_emotion = ''happy'', e_intensity = 0, e_sad_prob = 10, e_happy_prob = 90\<rparr>],
           window_sadness_data = [], window_start = 0, last_sample_time = 100,
           current_emotion = ''happy'', current_sadness_level = None, csv_log = []\<rparr>
   \<and> flush_step_adv 100 101
        \<lparr>window_emotions =
             [\<lparr>e_emotion = ''happy'', e_intensity = 0, e_sad_prob = 10, e_happy_prob = 90\<rparr>],
           window_sadness_data = [], window_start = 0, last_sample_time = 100,
           current_emotion = ''happy'', current_sadness_level = None, csv_log = []\<rparr> =
      Inr \<lparr>window_emotions = [], window_sadness_data = [], window_start = 101,
           last_sample_time = 100, current_emotion = ''happy'', current_sadness_level = None,
           csv_log = [\<lparr>arow_window_start = 0, arow_primary_emotion = ''happy'',
                       arow_sadness_level = ''N/A'', arow_sadness_intensity = NA,
                       arow_happy_confidence = 90, arow_sad_confidence = 10,
                       arow_samples_collected = 1\<rparr>]\<rparr>"
  by (simp add: initial_monitor_def flush_step_adv_def flush_step_def clear_window_def
      AGGREGATION_WINDOW_def sample_step_adv_def predict_emotion_def SAMPLE_INTERVAL_def
      window_row_adv_def count_labels_def py_max_by_value_def summarize_sadness_def
      level_field_def intensity_field_def)


text \<open>
  Claim C8. In every row written, the sadness level and the sadness intensity are the text
  \<open>N/A\<close> exactly when the window has no sad sample; with at least one sad sample they are
  the majority level and the formatted mean intensity.

  The intensity column is chosen by \<open>if sadness_intensity\<close>, which is false for a mean of
  0.0 as well as for \<open>None\<close>. In face\_advanced.py a sad sample can have intensity 0.0 (the
  model's intensity output, without landmarks). One such sample in the window, then the
  flush: the row has the level upset and the intensity \<open>N/A\<close>.
\<close>

theorem zero_mean_intensity_written_as_NA:
  "sample_step_adv 1 1 (Some \<lparr>out_sad = 0.9, out_happy = 0.1, out_intensity = 0\<rparr>) None
     (initial_monitor 0) =
     Inr \<lparr>window_emotions =
            [\<lparr>e_emotion = ''sad'', e_intensity = 0, e_sad_prob = 90, e_happy_prob = 10\<rparr>],
          window_sadness_data = [(''upset'', 0)], window_start = 0, last_sample_time = 1,
          current_emotion = ''sad'', current_sadness_level = Some ''upset'', csv_log = []\<rparr>
   \<and> flush_step_adv 30 31
        \<lparr>window_emotions =
            [\<lparr>e_emotion = ''sad'', e_intensity = 0, e_sad_prob = 90, e_happy_prob = 10\<rparr>],
          window_sadness_data = [(''upset'', 0)], window_start = 0, last_sample_time = 1,
          current_emotion = ''sad'', current_sadness_level = Some ''upset'', csv_log = []\<rparr> =
     Inr \<lparr>window_emotions = [], window_sadness_data = [], window_start = 31,
          last_sample_time = 1, current_emotion = ''sad'',
          current_sadness_level = Some ''upset'',
          csv_log = [\<lparr>arow_window_start = 0, arow_primary_emotion = ''sad'',
                      arow_sadness_level = ''upset'', arow_sadness_intensity = NA,
                      arow_happy_confidence = 10, arow_sad_confidence = 90,
                      arow_samples_collected = 1\<rparr>]\<rparr>"
  by (simp add: sample_step_adv_def predict_emotion_def
      initial_monitor_def SAMPLE_INTERVAL_def flush_step_adv_def AGGREGATION_WINDOW_def
      window_row_adv_def count_labels_def py_max_by_value_def summarize_sadness_def
      level_field_def intensity_field_def clear_window_def classify_sadness_level_adv_cases)

section \<open>Sampling\<close>

text \<open>
  Claim C4. When the classifier backend raises, the tick produces no sample: the fallback
  emotion neutral is for display only and is never appended to the window's sample list.

  In face\_advanced.py \<open>predict_emotion\<close> returns the fallback tuple and the main loop
  appends it to \<open>window_emotions\<close> like any other prediction. One tick with a face and a
  failing backend leaves a neutral sample with probabilities 50 and 50 in the window, and
  the next flush writes a row with primary emotion neutral. The sampling of face.py, given
  the same failure, appends nothing.
\<close>

theorem failed_prediction_is_aggregated:
  "sample_step_adv 1 1 None None (initial_monitor 0) =
     Inr \<lparr>window_emotions =
            [\<lparr>e_emotion = ''neutral'', e_intensity = 0, e_sad_prob = 50, e_happy_prob = 50\<rparr>],
          window_sadness_data = [], window_start = 0, last_sample_time = 1,
          current_emotion = ''neutral'', current_sadness_level = None, csv_log = []\<rparr>
   \<and> flush_step_adv 30 31
        \<lparr>window_emotions =
            [\<lparr>e_emotion = ''neutral'', e_intensity = 0, e_sad_prob = 50, e_happy_prob = 50\<rparr>],
          window_sadness_data = [], window_start = 0, last_sample_time = 1,
          current_emotion = ''neutral'', current_sadness_level = None, csv_log = []\<rparr> =
     Inr \<lparr>window_emotions = [], window_sadness_data = [], window_start = 31,
          last_sample_time = 1, current_emotion = ''neutral'', current_sadness_level = None,
          csv_log = [\<lparr>arow_window_start = 0, arow_primary_emotion = ''neutral'',
                      arow_sadness_level = ''N/A'', arow_sadness_intensity = NA,
                      arow_happy_confidence = 50, arow_sad_confidence = 50,
                      arow_samples_collected = 1\<rparr>]\<rparr>
   \<and> window_emotions (sample_step 1 1 None (initial_monitor 0)) = []"
  by (simp add: sample_step_adv_def predict_emotion_def fallback_prediction_def
      initial_monitor_def SAMPLE_INTERVAL_def flush_step_adv_def AGGREGATION_WINDOW_def
      window_row_adv_def count_labels_def py_max_by_value_def summarize_sadness_def
      level_field_def intensity_field_def clear_window_def sample_step_def
      predict_emotion_custom_def get_dominant_emotion_def)


section \<open>Dominant emotion of one sample\<close>

lemma predict_emotion_custom_keys:
  assumes "length predictions \<ge> 7"
  shows "\<exists>sc. predict_emotion_custom (Some predictions) = Some sc \<and> map fst sc = EMOTIONS"
proof -
  have "length EMOTIONS = 7" by (simp add: EMOTIONS_def)
  with assms have "\<not> length predictions < length EMOTIONS" by simp
  then have "predict_emotion_custom (Some predictions) =
      Some (map (\<lambda>i. (EMOTIONS ! i, predictions ! i * 100)) [0..<length EMOTIONS])"
    by (simp add: predict_emotion_custom_def)
  moreover have "map fst (map (\<lambda>i. (EMOTIONS ! i, predictions ! i * 100)) [0..<length EMOTIONS])
      = EMOTIONS"
    by (simp add: comp_def map_nth)
  ultimately show ?thesis by blast
qed


lemma emotion_map_table:
  "map (\<lambda>l. dict_get emotion_map l l) EMOTIONS =
     [''angry'', ''angry'', ''fearful'', ''happy'', ''sad'', ''surprised'', ''neutral'']"
  by (simp add: EMOTIONS_def emotion_map_def dict_get_def)

text \<open>
  Claim C9, as stated: for every 7-class score mapping the scorer returns, as dominant
  label, the argmax over the scores, ties going to the first label in the order angry,
  disgust, fear, happy, sad, surprise, neutral.

  The label returned is not the argmax itself but its entry in \<open>emotion_map\<close>. When
  disgust has the largest score the scorer answers angry, a label whose own score is not
  the largest.
\<close>

theorem dominant_emotion_disgust_returned_as_angry:
  "predict_emotion_custom (Some [0.05, 0.7, 0.05, 0.05, 0.05, 0.05, 0.05]) =
     Some [(''angry'', 5), (''disgust'', 70), (''fear'', 5), (''happy'', 5), (''sad'', 5),
           (''surprise'', 5), (''neutral'', 5)]
   \<and> get_dominant_emotion
        (Some [(''angry'', 5), (''disgust'', 70), (''fear'', 5), (''happy'', 5), (''sad'', 5),
               (''surprise'', 5), (''neutral'', 5)]) =
     Some (''angry'',
           [(''angry'', 5), (''disgust'', 70), (''fear'', 5), (''happy'', 5), (''sad'', 5),
            (''surprise'', 5), (''neutral'', 5)])"
  by (simp add: predict_emotion_custom_def emotions_len upt_7 get_dominant_emotion_def
      dict_get_def emotion_map_def) (simp add: EMOTIONS_def)


text \<open>
  Claim C9, amended. For every score mapping with the seven labels in the fixed order,
  \<open>get_dominant_emotion\<close> returns the \<open>emotion_map\<close> entry of the argmax, where the argmax
  is the first label in the fixed order whose score is the largest: every earlier label
  has a strictly smaller score and no later label has a larger one. The table sends
  disgust to angry, fear to fearful, surprise to surprised and every other label to
  itself. The mapping that \<open>predict_emotion_custom\<close> builds from seven or more backend
  values has its labels in that order.
\<close>

theorem dominant_emotion_remapped_first_argmax:
  assumes "map fst scores = EMOTIONS"
  shows "\<exists>pre m post. scores = pre @ m # post
           \<and> (\<forall>p \<in> set pre. snd p < snd m)
           \<and> (\<forall>p \<in> set post. snd p \<le> snd m)
           \<and> get_dominant_emotion (Some scores) =
               Some (dict_get emotion_map (fst m) (fst m), scores)
           \<and> map (\<lambda>l. dict_get emotion_map l l) EMOTIONS =
               [''angry'', ''angry'', ''fearful'', ''happy'', ''sad'', ''surprised'', ''neutral'']
           \<and> (\<forall>predictions. length predictions \<ge> 7 \<longrightarrow>
                (\<exists>sc. predict_emotion_custom (Some predictions) = Some sc
                       \<and> map fst sc = EMOTIONS))"
proof -
  from assms obtain x xs where sc: "scores = x # xs"
    by (cases scores) (simp_all add: EMOTIONS_def)
  define m where "m = max_item_from x xs"
  from max_item_from_first_max [of x xs] obtain pre post where
    h: "scores = pre @ m # post"
       "\<forall>p \<in> set pre. snd p < snd m"
       "\<forall>p \<in> set post. snd p \<le> snd m"
    unfolding m_def sc by blast
  have g: "get_dominant_emotion (Some scores) =
      Some (dict_get emotion_map (fst m) (fst m), scores)"
    by (simp add: sc get_dominant_emotion_def Let_def m_def)
  have k: "\<forall>predictions. length predictions \<ge> 7 \<longrightarrow>
                (\<exists>sc. predict_emotion_custom (Some predictions) = Some sc
                       \<and> map fst sc = EMOTIONS)"
    using predict_emotion_custom_keys by blast
  show ?thesis
    apply (rule exI [of _ pre])
    apply (rule exI [of _ m])
    apply (rule exI [of _ post])
    using h g k emotion_map_table apply simp
    done
qed

theorem dominant_emotion_remapped_first_argmax_witness:
  "map fst [(''angry'', 20 :: real), (''disgust'', 5), (''fear'', 30), (''happy'', 30),
            (''sad'', 5), (''surprise'', 5), (''neutral'', 5)] = EMOTIONS
   \<and> get_dominant_emotion
        (Some [(''angry'', 20), (''disgust'', 5), (''fear'', 30), (''happy'', 30),
               (''sad'', 5), (''surprise'', 5), (''neutral'', 5)]) =
       Some (''fearful'',
             [(''angry'', 20), (''disgust'', 5), (''fear'', 30), (''happy'', 30),
              (''sad'', 5), (''surprise'', 5), (''neutral'', 5)])"
  using dominant_emotion_remapped_first_argmax [of "[(''angry'', 20), (''disgust'', 5), (''fear'', 30), (''happy'', 30),
               (''sad'', 5), (''surprise'', 5), (''neutral'', 5)]"]
  by (simp add: EMOTIONS_def get_dominant_emotion_def dict_get_def emotion_map_def)

section \<open>Feature analysis and fusion\<close>

lemma rubric_balanced: "fst (rubric ms) = snd (rubric ms)"
  by (simp add: rubric_def Let_def)

lemma rubric_confidence_pos_iff:
  "snd (rubric ms) > 0 \<longleftrightarrow>
     below (avg_ear ms) 0.25 \<or> below (avg_brow_dist ms) 20 \<or> downturn ms > 2
     \<or> mar ms < 0.3 \<or> below (jaw_var ms) 50"
  by (cases "avg_ear ms"; cases "avg_brow_dist ms"; cases "jaw_var ms")
     (auto simp add: rubric_def Let_def below_def)

lemma rubric_confidence_nonneg: "snd (rubric ms) \<ge> 0"
  by (simp add: rubric_def Let_def)

lemma normalize_rubric:
  "normalize_score (rubric ms) = (if snd (rubric ms) > 0 then 100 else 0)"
proof (cases "snd (rubric ms) > 0")
  case True
  then show ?thesis by (simp add: normalize_score_def rubric_balanced)
next
  case False
  with rubric_confidence_nonneg [of ms] have "snd (rubric ms) = 0" by simp
  then show ?thesis by (simp add: normalize_score_def rubric_balanced)
qed

lemma measure_landmarks_total:
  assumes "dlib_shaped l"
  shows "\<exists>ms. measure_landmarks l = Inr ms"
  using assms
  by (auto simp add: dlib_shaped_def measure_landmarks_def calculate_eye_aspect_ratio_def
      calculate_mouth_aspect_ratio_def Let_def)

lemma pt_dist_same_y: "pt_dist (a, y) (b, y) = \<bar>a - b\<bar>"
  by (simp add: pt_dist_def)

lemma pt_dist_same_x: "pt_dist (x, a) (x, b) = \<bar>a - b\<bar>"
  by (simp add: pt_dist_def)

lemma example_face_shaped: "dlib_shaped example_face" "dlib_shaped example_face_furrowed"
  by (simp_all add: dlib_shaped_def example_face_def example_face_furrowed_def)

lemma example_face_measurements:
  "measure_landmarks example_face =
     Inr \<lparr>avg_ear = Some 0.4, avg_brow_dist = Some 20, mar = 0.4, downturn = 0,
          jaw_var = Some 1200\<rparr>"
  by (simp add: example_face_def measure_landmarks_def calculate_eye_aspect_ratio_def
      calculate_mouth_aspect_ratio_def calculate_eyebrow_distance_def mean_point_def
      mean_real_def jaw_variance_def variance_def avg_opt_def to_real_pt_def
      pt_dist_same_x pt_dist_same_y Let_def)

lemma example_face_furrowed_measurements:
  "measure_landmarks example_face_furrowed =
     Inr \<lparr>avg_ear = Some 0.4, avg_brow_dist = Some 10, mar = 0.4, downturn = 0,
          jaw_var = Some 1200\<rparr>"
  by (simp add: example_face_def example_face_furrowed_def
      measure_landmarks_def calculate_eye_aspect_ratio_def
      calculate_mouth_aspect_ratio_def calculate_eyebrow_distance_def mean_point_def
      mean_real_def jaw_variance_def variance_def avg_opt_def to_real_pt_def
      pt_dist_same_x pt_dist_same_y Let_def)


text \<open>
  Claim C6. In the landmark pipeline the intensity of a sad prediction with landmarks is
  0.6 times the model intensity plus 0.4 times the geometric score, the geometric score
  being \<open>min(100, (score / confidence) * 100)\<close> over the rubric; without landmarks the
  geometric scorer returns exactly 50.0 and the reported intensity is the model intensity
  alone.

  The normalisation is applied when the confidence is positive; with confidence zero the
  score is returned as the rubric left it. A prediction is sad when the happy probability
  does not exceed the sad one.
\<close>

theorem feature_fusion_intensity:
  assumes "\<not> out_happy p * 100 > out_sad p * 100" and "dlib_shaped l"
  shows "(\<exists>ms g. measure_landmarks l = Inr ms
            \<and> analyze_facial_features (Some l) = Inr g
            \<and> (snd (rubric ms) > 0 \<longrightarrow>
                 g = min 100 ((fst (rubric ms) / snd (rubric ms)) * 100))
            \<and> (\<not> snd (rubric ms) > 0 \<longrightarrow> g = fst (rubric ms))
            \<and> predict_emotion (Some p) (Some l) =
                 (''sad'', 0.6 * (out_intensity p * 100) + 0.4 * g,
                  out_sad p * 100, out_happy p * 100))
       \<and> analyze_facial_features None = Inr 50
       \<and> predict_emotion (Some p) None =
            (''sad'', out_intensity p * 100, out_sad p * 100, out_happy p * 100)"
proof -
  from measure_landmarks_total [OF assms(2)] obtain ms where m: "measure_landmarks l = Inr ms"
    by blast
  define g where "g = normalize_score (rubric ms)"
  have a: "analyze_facial_features (Some l) = Inr g"
    by (simp add: analyze_facial_features_def m g_def)
  have n1: "snd (rubric ms) > 0 \<longrightarrow> g = min 100 ((fst (rubric ms) / snd (rubric ms)) * 100)"
    by (simp add: g_def normalize_score_def)
  have n2: "\<not> snd (rubric ms) > 0 \<longrightarrow> g = fst (rubric ms)"
    by (simp add: g_def normalize_score_def)
  have p1: "predict_emotion (Some p) (Some l) =
      (''sad'', 0.6 * (out_intensity p * 100) + 0.4 * g, out_sad p * 100, out_happy p * 100)"
    using assms(1) by (simp add: predict_emotion_def a Let_def)
  have p2: "predict_emotion (Some p) None =
      (''sad'', out_intensity p * 100, out_sad p * 100, out_happy p * 100)"
    using assms(1) by (simp add: predict_emotion_def Let_def)
  have a0: "analyze_facial_features None = Inr 50"
    by (simp add: analyze_facial_features_def)
  from m a n1 n2 p1 p2 a0 show ?thesis by blast
qed

theorem feature_fusion_intensity_witness:
  "\<not> out_happy \<lparr>out_sad = 0.8, out_happy = 0.2, out_intensity = 0.5\<rparr> * 100
       > out_sad \<lparr>out_sad = 0.8, out_happy = 0.2, out_intensity = 0.5\<rparr> * 100
   \<and> dlib_shaped example_face_furrowed
   \<and> dlib_shaped example_face
   \<and> rubric \<lparr>avg_ear = Some 0.4, avg_brow_dist = Some 10, mar = 0.4, downturn = 0,
              jaw_var = Some 1200\<rparr> = (25, 25)
   \<and> predict_emotion (Some \<lparr>out_sad = 0.8, out_happy = 0.2, out_intensity = 0.5\<rparr>)
        (Some example_face_furrowed) = (''sad'', 70, 80, 20)
   \<and> predict_emotion (Some \<lparr>out_sad = 0.8, out_happy = 0.2, out_intensity = 0.5\<rparr>)
        (Some example_face) = (''sad'', 30, 80, 20)
   \<and> predict_emotion (Some \<lparr>out_sad = 0.8, out_happy = 0.2, out_intensity = 0.5\<rparr>) None
        = (''sad'', 50, 80, 20)"
  using feature_fusion_intensity
      [of "\<lparr>out_sad = 0.8, out_happy = 0.2, out_intensity = 0.5\<rparr>" example_face_furrowed]
    feature_fusion_intensity
      [of "\<lparr>out_sad = 0.8, out_happy = 0.2, out_intensity = 0.5\<rparr>" example_face]
  by (simp add: example_face_shaped example_face_measurements
      example_face_furrowed_measurements analyze_facial_features_def normalize_score_def
      rubric_def below_def)

text \<open>
  Claim C7. For every landmark set, \<open>analyze_facial_features\<close> returns exactly 0.0 when no
  indicator of the rubric fires, so that the confidence stays 0, and exactly 100.0 when at
  least one fires, never a value in between: every branch adds the same amount to the
  score and to the confidence, so the normalised quotient is 1.

  The landmark set has the group sizes of \<open>get_facial_landmarks\<close>, so that no read of a
  point fails.
\<close>

theorem analyze_facial_features_zero_or_hundred:
  assumes "dlib_shaped l"
  shows "\<exists>ms. measure_landmarks l = Inr ms
           \<and> fst (rubric ms) = snd (rubric ms)
           \<and> (snd (rubric ms) > 0 \<longleftrightarrow>
                below (avg_ear ms) 0.25 \<or> below (avg_brow_dist ms) 20 \<or> downturn ms > 2
                \<or> mar ms < 0.3 \<or> below (jaw_var ms) 50)
           \<and> analyze_facial_features (Some l) = Inr (if snd (rubric ms) > 0 then 100 else 0)"
proof -
  from measure_landmarks_total [OF assms] obtain ms where m: "measure_landmarks l = Inr ms"
    by blast
  then have "analyze_facial_features (Some l) = Inr (if snd (rubric ms) > 0 then 100 else 0)"
    by (simp add: analyze_facial_features_def normalize_rubric)
  with m rubric_balanced [of ms] rubric_confidence_pos_iff [of ms] show ?thesis by blast
qed


theorem analyze_facial_features_zero_or_hundred_witness:
  "dlib_shaped example_face \<and> dlib_shaped example_face_furrowed
   \<and> analyze_facial_features (Some example_face) = Inr 0
   \<and> analyze_facial_features (Some example_face_furrowed) = Inr 100"
  using analyze_facial_features_zero_or_hundred [of example_face]
    analyze_facial_features_zero_or_hundred [of example_face_furrowed]
  by (simp add: example_face_shaped example_face_measurements
      example_face_furrowed_measurements rubric_def below_def)



end
